theory Spec2Isabelle
  imports Main "HOL-Library.Sublist"
begin

section \<open>The PR automator: \<^verbatim>\<open>tools/create_pr_or_update_existing_one.py\<close>\<close>

text \<open>
  The script is orchestration glue: it changes the working directory, runs \<^verbatim>\<open>git\<close> as
  a child process, asks a collaborator module which dependencies changed, and talks to
  the hosting platform over HTTP. Each source function becomes a function from the
  process state to a result and the new state. A raised exception is the result
  \<open>Inl e\<close>; the state reached up to the raise is kept, as in Python.
\<close>

subsection \<open>Errors, events and the outside world\<close>

datatype error =
    KeyError string
  | TypeError
  | ValueError string
  | FileNotFoundError string
  | CalledProcessError "string list"
  | ConnectionError
  | HTTPError nat
  | JSONDecodeError

text \<open>A value of a JSON payload sent by the script: a string or a boolean.\<close>

datatype pval = PStr string | PBool bool

text \<open>
  What the script does to the outside, in order: a child process started in a working
  directory with an argument vector, an HTTP GET of a URL, an HTTP POST of a URL with
  headers and a JSON payload (a dict literal, kept in the order it is written).
\<close>

datatype event =
    Run string "string list"
  | Get string
  | Post string "(string \<times> string) list" "(string \<times> pval) list"

text \<open>
  A pull-request object of the platform's answer; the script reads its \<^verbatim>\<open>number\<close>
  field only. A response carries its status code and its decoded body
  (\<^verbatim>\<open>response.json()\<close>; \<open>None\<close> when the body does not decode).
\<close>

record pull =
  number :: int

record 'j response =
  status_code :: nat
  json :: "'j option"

text \<open>
  Everything the script reads but does not control. The process environment
  \<^verbatim>\<open>os.environ\<close> is never written by the script. \<open>REPO_DIR\<close> is the module constant
  (a path derived from the file's location). \<open>dirs p\<close> says that \<open>p\<close> is a directory the
  process can be in and can enter; the script itself creates and removes none.
  \<open>returncode cwd argv\<close> is the exit status of a child process.
  \<open>get_changed_dependencies\<close> is the collaborator imported from
  \<^verbatim>\<open>check_updated_packages\<close>, a pure query by its contract, with the arguments
  \<^verbatim>\<open>all_packages\<close>, \<^verbatim>\<open>base_branch\<close>, \<^verbatim>\<open>python_version\<close>, \<^verbatim>\<open>src_dir\<close>.
  \<open>requests_get\<close> and \<open>requests_post\<close> are the platform's answers.
\<close>

record extern =
  environ :: "string \<rightharpoonup> string"
  REPO_DIR :: string
  dirs :: "string \<Rightarrow> bool"
  returncode :: "string \<Rightarrow> string list \<Rightarrow> int"
  get_changed_dependencies :: "bool \<Rightarrow> string \<Rightarrow> string \<Rightarrow> string \<Rightarrow> string list"
  requests_get :: "string \<Rightarrow> error + pull list response"
  requests_post :: "string \<Rightarrow> (string \<times> string) list \<Rightarrow> (string \<times> pval) list
                    \<Rightarrow> error + (string \<rightharpoonup> string) response"

text \<open>The state of the process: its working directory and what it has done so far.\<close>

record state =
  cwd :: string
  trace :: "event list"

type_synonym 'a action = "state \<Rightarrow> (error + 'a) \<times> state"

definition ret :: "'a \<Rightarrow> 'a action" where
  "ret x s = (Inr x, s)"

definition raise :: "error \<Rightarrow> 'a action" where
  "raise e s = (Inl e, s)"

text \<open>Statement sequencing: the second statement runs only if the first did not raise.\<close>

definition seq :: "'a action \<Rightarrow> ('a \<Rightarrow> 'b action) \<Rightarrow> 'b action" where
  "seq m f s = (case m s of (Inl e, s') \<Rightarrow> (Inl e, s') | (Inr x, s') \<Rightarrow> f x s')"

subsection \<open>Python built-ins used by the script\<close>

text \<open>\<^verbatim>\<open>sep.join(xs)\<close>.\<close>

fun join :: "string \<Rightarrow> string list \<Rightarrow> string" where
  "join sep [] = []"
| "join sep [x] = x"
| "join sep (x # y # ys) = x @ sep @ join sep (y # ys)"

text \<open>An f-string field holding \<^verbatim>\<open>os.environ.get(...)\<close>: \<^verbatim>\<open>None\<close> prints as \<^verbatim>\<open>None\<close>.\<close>

definition fmt :: "string option \<Rightarrow> string" where
  "fmt v = (case v of None \<Rightarrow> ''None'' | Some s \<Rightarrow> s)"

text \<open>\<^verbatim>\<open>os.environ.get(key, default)\<close>.\<close>

definition environ_get :: "(string \<rightharpoonup> string) \<Rightarrow> string \<Rightarrow> string \<Rightarrow> string" where
  "environ_get env key dflt = (case env key of None \<Rightarrow> dflt | Some v \<Rightarrow> v)"

text \<open>\<^verbatim>\<open>str(n)\<close> of an integer, as an f-string field prints it.\<close>

function str_nat :: "nat \<Rightarrow> string" where
  "str_nat n =
     (if n < 10 then [''0123456789'' ! n]
      else str_nat (n div 10) @ [''0123456789'' ! (n mod 10)])"
  by pat_completeness auto
termination
  by (relation "measure id") auto

declare str_nat.simps [simp del]

definition str_int :: "int \<Rightarrow> string" where
  "str_int i = (if i < 0 then ''-'' @ str_nat (nat (- i)) else str_nat (nat i))"

text \<open>
  \<^verbatim>\<open>int(s)\<close> of a string, base ten: surrounding whitespace is dropped, a sign may
  lead, and single underscores may stand between digits; anything else is a
  \<^verbatim>\<open>ValueError\<close>. (Strings are byte strings here: ASCII digits and whitespace.)
\<close>

definition isspace :: "char \<Rightarrow> bool" where
  "isspace c = (c \<in> set [CHR 0x20, CHR 0x09, CHR 0x0A, CHR 0x0B, CHR 0x0C, CHR 0x0D,
                          CHR 0x1C, CHR 0x1D, CHR 0x1E, CHR 0x1F])"

definition strip :: "string \<Rightarrow> string" where
  "strip s = rev (dropWhile isspace (rev (dropWhile isspace s)))"

definition digit_val :: "char \<Rightarrow> nat option" where
  "digit_val c =
     (let n = (of_char c :: nat) in if 48 \<le> n \<and> n \<le> 57 then Some (n - 48) else None)"

fun more_digits :: "nat \<Rightarrow> string \<Rightarrow> nat option" where
  "more_digits acc [] = Some acc"
| "more_digits acc [c] =
     (case digit_val c of None \<Rightarrow> None | Some v \<Rightarrow> Some (10 * acc + v))"
| "more_digits acc (c # d # cs) =
     (if c = CHR ''_'' then
        (case digit_val d of None \<Rightarrow> None | Some v \<Rightarrow> more_digits (10 * acc + v) cs)
      else
        (case digit_val c of None \<Rightarrow> None | Some v \<Rightarrow> more_digits (10 * acc + v) (d # cs)))"

definition unsigned :: "string \<Rightarrow> nat option" where
  "unsigned s =
     (case s of [] \<Rightarrow> None
      | c # cs \<Rightarrow> (case digit_val c of None \<Rightarrow> None | Some v \<Rightarrow> more_digits v cs))"

definition py_int :: "string \<Rightarrow> error + int" where
  "py_int s =
     (let t = strip s;
          r = (case t of
                 [] \<Rightarrow> None
               | c # cs \<Rightarrow>
                   if c = CHR ''-'' then map_option (\<lambda>n. - int n) (unsigned cs)
                   else if c = CHR ''+'' then map_option int (unsigned cs)
                   else map_option int (unsigned t))
      in case r of None \<Rightarrow> Inl (ValueError s) | Some i \<Rightarrow> Inr i)"

subsection \<open>Primitives with an effect\<close>

text \<open>\<^verbatim>\<open>os.getcwd()\<close> and \<^verbatim>\<open>os.chdir(path)\<close>.\<close>

definition getcwd :: "extern \<Rightarrow> string action" where
  "getcwd X s =
     (if dirs X (cwd s) then (Inr (cwd s), s) else (Inl (FileNotFoundError (cwd s)), s))"

definition chdir :: "extern \<Rightarrow> string \<Rightarrow> unit action" where
  "chdir X path s =
     (if dirs X path then (Inr (), s\<lparr>cwd := path\<rparr>) else (Inl (FileNotFoundError path), s))"

text \<open>
  \<^verbatim>\<open>subprocess.run(argv, check=True)\<close>: the child runs in the working directory of
  the process, and a non-zero exit status raises. (The program \<^verbatim>\<open>git\<close> is taken to be
  installed.)
\<close>

definition subprocess_run :: "extern \<Rightarrow> string list \<Rightarrow> unit action" where
  "subprocess_run X argv s =
     (let s' = s\<lparr>trace := trace s @ [Run (cwd s) argv]\<rparr>
      in if returncode X (cwd s) argv = 0 then (Inr (), s')
         else (Inl (CalledProcessError argv), s'))"

text \<open>\<^verbatim>\<open>requests.get(url)\<close>, \<^verbatim>\<open>requests.post(url, headers=..., json=...)\<close>.\<close>

definition http_get :: "extern \<Rightarrow> string \<Rightarrow> pull list response action" where
  "http_get X url s = (requests_get X url, s\<lparr>trace := trace s @ [Get url]\<rparr>)"

definition http_post :: "extern \<Rightarrow> string \<Rightarrow> (string \<times> string) list \<Rightarrow> (string \<times> pval) list
                         \<Rightarrow> (string \<rightharpoonup> string) response action" where
  "http_post X url headers payload s =
     (requests_post X url headers payload, s\<lparr>trace := trace s @ [Post url headers payload]\<rparr>)"

text \<open>\<^verbatim>\<open>response.raise_for_status()\<close>: raises on a 4xx or 5xx status.\<close>

definition raise_for_status :: "'j response \<Rightarrow> unit action" where
  "raise_for_status r =
     (if 400 \<le> status_code r \<and> status_code r < 600 then raise (HTTPError (status_code r))
      else ret ())"

text \<open>\<^verbatim>\<open>response.json()\<close>.\<close>

definition get_json :: "'j response \<Rightarrow> 'j action" where
  "get_json r = (case json r of None \<Rightarrow> raise JSONDecodeError | Some j \<Rightarrow> ret j)"

subsection \<open>The script\<close>

definition BASE_URL :: string where
  "BASE_URL = ''https://api.github.com''"

text \<open>
  The context manager \<^verbatim>\<open>cd\<close>: the directory is read, then inside \<^verbatim>\<open>try\<close> the
  process enters \<open>path\<close> and the body runs; the \<^verbatim>\<open>finally\<close> clause goes back.
  An exception of the \<^verbatim>\<open>try\<close> part is raised again after the \<^verbatim>\<open>finally\<close> clause,
  unless that clause raises itself.
\<close>

definition cd :: "extern \<Rightarrow> string \<Rightarrow> 'a action \<Rightarrow> 'a action" where
  "cd X path body s =
     (case getcwd X s of
        (Inl e, s0) \<Rightarrow> (Inl e, s0)
      | (Inr current_dir, s0) \<Rightarrow>
          (case seq (chdir X path) (\<lambda>_. body) s0 of
             (r, s1) \<Rightarrow>
               (case chdir X current_dir s1 of
                  (Inl e, s2) \<Rightarrow> (Inl e, s2)
                | (Inr _, s2) \<Rightarrow> (r, s2))))"

text \<open>\<^verbatim>\<open>_setup_git_author\<close> (a name cannot begin with an underscore here).\<close>

definition setup_git_author :: "extern \<Rightarrow> unit action" where
  "setup_git_author X =
     seq (subprocess_run X [''git'', ''config'', ''--global'', ''user.name'', ''napari-bot''])
       (\<lambda>_. subprocess_run X
          [''git'', ''config'', ''--global'', ''user.email'',
           ''napari-bot@users.noreply.github.com''])"

definition create_commit :: "extern \<Rightarrow> string \<Rightarrow> string \<Rightarrow> unit action" where
  "create_commit X message branch_name =
     cd X (REPO_DIR X)
       (seq (if branch_name \<noteq> [] then
               subprocess_run X [''git'', ''checkout'', ''-B'', branch_name]
             else ret ())
          (\<lambda>_. seq (subprocess_run X [''git'', ''add'', ''-u''])
             (\<lambda>_. subprocess_run X [''git'', ''commit'', ''-m'', message])))"

definition push :: "extern \<Rightarrow> string \<Rightarrow> bool \<Rightarrow> unit action" where
  "push X branch_name update =
     cd X (REPO_DIR X)
       (if update then
          subprocess_run X
            [''git'', ''push'', ''--force'', ''--set-upstream'', ''napari-bot'', branch_name]
        else
          subprocess_run X
            [''git'', ''push'', ''--force'', ''--set-upstream'', ''origin'', branch_name])"

text \<open>The f-string \<^verbatim>\<open>`{x}`\<close>.\<close>

definition backtick :: "string \<Rightarrow> string" where
  "backtick x = ''`'' @ x @ ''`''"

definition commit_message :: "extern \<Rightarrow> string \<Rightarrow> string action" where
  "commit_message X branch_name =
     seq (cd X (REPO_DIR X)
            (ret (get_changed_dependencies X False branch_name ''3.11'' (REPO_DIR X))))
       (\<lambda>changed_direct.
          if changed_direct = [] then ret ''Update indirect dependencies''
          else ret (''Update '' @ join '', '' (map backtick changed_direct)))"

definition long_description :: "extern \<Rightarrow> string \<Rightarrow> string action" where
  "long_description X branch_name =
     seq (cd X (REPO_DIR X)
            (ret (get_changed_dependencies X True branch_name ''3.11'' (REPO_DIR X))))
       (\<lambda>all_changed. ret (''Updated packages: '' @ join '', '' (map backtick all_changed)))"

text \<open>
  \<^verbatim>\<open>list_pr_for_branch\<close>: the organisation is the part of \<open>repo\<close> before its first
  slash (\<^verbatim>\<open>repo.split('/')[0]\<close>). The body is decoded once for the log line and again
  for the test; an empty list is falsy. The access token is not used.
\<close>

definition list_pr_for_branch :: "extern \<Rightarrow> string \<Rightarrow> string option \<Rightarrow> string \<Rightarrow> int option action" where
  "list_pr_for_branch X branch_name access_token repo =
     (let org_name = takeWhile (\<lambda>c. c \<noteq> CHR ''/'') repo;
          url = BASE_URL @ ''/repos/'' @ repo @ ''/pulls?state=open&head='' @ org_name
                @ '':'' @ branch_name
      in seq (http_get X url)
           (\<lambda>response. seq (raise_for_status response)
              (\<lambda>_. seq (get_json response)
                 (\<lambda>_. seq (get_json response)
                    (\<lambda>prs. case prs of
                               [] \<Rightarrow> ret None
                             | pr # _ \<Rightarrow> ret (Some (number pr)))))))"

definition update_own_pr :: "extern \<Rightarrow> int \<Rightarrow> string option \<Rightarrow> string \<Rightarrow> string \<Rightarrow> unit action" where
  "update_own_pr X pr_number access_token base_branch repo =
     (let headers = [(''Authorization'', ''token '' @ fmt access_token)]
      in seq (commit_message X base_branch)
           (\<lambda>title. seq (long_description X base_branch)
              (\<lambda>body.
                 let payload = [(''title'', PStr title), (''body'', PStr body)];
                     url = BASE_URL @ ''/repos/'' @ repo @ ''/pulls/'' @ str_int pr_number
                 in seq (http_post X url headers payload) raise_for_status)))"

text \<open>
  \<^verbatim>\<open>create_pr\<close>: after the request, the log line reads \<^verbatim>\<open>response.json()["html_url"]\<close>,
  which raises when the body does not decode or has no such key.
\<close>

definition create_pr :: "extern \<Rightarrow> string \<Rightarrow> string \<Rightarrow> string option \<Rightarrow> string \<Rightarrow> string \<Rightarrow> unit action" where
  "create_pr X base_branch new_branch access_token repo source_user =
     (let headers = [(''Authorization'', ''token '' @ fmt access_token)]
      in seq (commit_message X base_branch)
           (\<lambda>title. seq (long_description X base_branch)
              (\<lambda>body.
                 let payload =
                       [(''title'', PStr title), (''body'', PStr body),
                        (''head'', PStr (if source_user \<noteq> [] then source_user @ '':'' @ new_branch
                                         else new_branch)),
                        (''base'', PStr base_branch),
                        (''maintainer_can_modify'', PBool True)];
                     pull_request_url = BASE_URL @ ''/repos/'' @ repo @ ''/pulls''
                 in seq (http_post X pull_request_url headers payload)
                      (\<lambda>response. seq (raise_for_status response)
                         (\<lambda>_. seq (get_json response)
                            (\<lambda>j. case j ''html_url'' of
                                    None \<Rightarrow> raise (KeyError ''html_url'')
                                  | Some _ \<Rightarrow> ret ()))))))"

text \<open>The name of the working branch of the scheduled path (the first statement of
  \<^verbatim>\<open>create_pr_with_push\<close>).\<close>

definition new_branch_name :: "string \<Rightarrow> string" where
  "new_branch_name branch_name =
     (if branch_name = ''main'' then ''auto-update-dependencies''
      else ''auto-update-dependencies-'' @ branch_name)"

text \<open>
  \<^verbatim>\<open>create_pr_with_push\<close>. The result of \<^verbatim>\<open>list_pr_for_branch\<close> is tested for
  truthiness: \<^verbatim>\<open>None\<close> and the number 0 are falsy.
\<close>

definition create_pr_with_push :: "extern \<Rightarrow> string \<Rightarrow> string option \<Rightarrow> string \<Rightarrow> unit action" where
  "create_pr_with_push X branch_name access_token repo0 =
     (let new_branch = new_branch_name branch_name;
          repo = (if repo0 = [] then
                    environ_get (environ X) ''GITHUB_REPOSITORY'' ''napari/napari''
                  else repo0)
      in seq (cd X (REPO_DIR X)
                (subprocess_run X [''git'', ''checkout'', ''-B'', new_branch]))
           (\<lambda>_. seq (commit_message X branch_name)
              (\<lambda>message. seq (create_commit X message [])
                 (\<lambda>_. seq (push X new_branch False)
                    (\<lambda>_. seq (list_pr_for_branch X new_branch access_token repo)
                       (\<lambda>pr_number.
                          case pr_number of
                            None \<Rightarrow>
                              create_pr X branch_name new_branch access_token repo []
                          | Some n \<Rightarrow>
                              if n \<noteq> 0 then update_own_pr X n access_token branch_name repo
                              else create_pr X branch_name new_branch access_token repo []))))))"

text \<open>
  \<^verbatim>\<open>add_comment_to_pr\<close>: the header is built from the environment variable
  \<^verbatim>\<open>GITHUB_TOKEN\<close>; the parameter \<open>access_token\<close> is not read.
\<close>

definition add_comment_to_pr :: "extern \<Rightarrow> int \<Rightarrow> string \<Rightarrow> string option \<Rightarrow> string \<Rightarrow> unit action" where
  "add_comment_to_pr X pull_request_number message access_token repo =
     (let headers = [(''Authorization'', ''token '' @ fmt (environ X ''GITHUB_TOKEN''))];
          payload = [(''body'', PStr message)];
          comment_url = BASE_URL @ ''/repos/'' @ repo @ ''/issues/''
                        @ str_int pull_request_number @ ''/comments''
      in seq (http_post X comment_url headers payload) raise_for_status)"

text \<open>\<^verbatim>\<open>get_pr_number\<close>: \<^verbatim>\<open>int(None)\<close> is a \<^verbatim>\<open>TypeError\<close>.\<close>

definition get_pr_number :: "extern \<Rightarrow> int action" where
  "get_pr_number X =
     (case environ X ''PR_NUMBER'' of
        None \<Rightarrow> raise TypeError
      | Some pr_number \<Rightarrow> (case py_int pr_number of Inl e \<Rightarrow> raise e | Inr n \<Rightarrow> ret n))"

text \<open>
  The text of the comment of \<^verbatim>\<open>update_pr\<close>, as the statements \<^verbatim>\<open>comment_content += ...\<close>
  build it from the long description. The last of the pieces added before the push is
  a plain string, not an f-string.
\<close>

definition comment_content :: "string \<Rightarrow> string \<Rightarrow> string \<Rightarrow> string \<Rightarrow> string" where
  "comment_content description target_repo branch_name new_branch =
     description
     @ ''\<newline>\<newline>This workflow cannot automatically update your PR or create PR to your repository. ''
     @ ''But you could open such PR by clicking the link:''
     @ (''https://github.com/'' @ target_repo @ ''/compare/'' @ branch_name
        @ ''...napari-bot:'' @ new_branch @ ''.'')
     @ ''\<newline>\<newline>''
     @ ''You could also get the updated files from the ''
     @ (''https://github.com/napari-bot/napari/tree/'' @ new_branch @ ''/resources/constraints.'')
     @ ''Or ask the maintainers to provide you content of the constraints artifact.''
     @ ''from the run https://github.com/PartSeg/napari/actions/runs/{os.environ.get('GITHUB_RUN_ID')}''
     @ ''\<newline>\<newline>''
     @ ''To open PR with this changes please click this link: ''"

definition update_pr :: "extern \<Rightarrow> string \<Rightarrow> string option \<Rightarrow> string option \<Rightarrow> unit action" where
  "update_pr X branch_name access_token bot_access_token =
     seq (get_pr_number X)
       (\<lambda>pr_number.
          let target_repo = fmt (environ X ''FULL_NAME'');
              new_branch = ''auto-update-dependencies/'' @ target_repo @ ''/'' @ branch_name
          in seq (commit_message X branch_name)
               (\<lambda>message. seq (create_commit X message new_branch)
                  (\<lambda>_. seq (long_description X (''origin/'' @ branch_name))
                     (\<lambda>description. seq (push X new_branch True)
                        (\<lambda>_. add_comment_to_pr X pr_number
                                (comment_content description target_repo branch_name new_branch)
                                access_token
                                (environ_get (environ X) ''GITHUB_REPOSITORY''
                                   ''napari/napari''))))))"

text \<open>\<^verbatim>\<open>main\<close>: \<^verbatim>\<open>environ[...]\<close> of an unset variable is a \<^verbatim>\<open>KeyError\<close>.\<close>

definition main :: "extern \<Rightarrow> unit action" where
  "main X =
     (case environ X ''GITHUB_EVENT_NAME'' of
        None \<Rightarrow> raise (KeyError ''GITHUB_EVENT_NAME'')
      | Some event_name \<Rightarrow>
          (case environ X ''BRANCH'' of
             None \<Rightarrow> raise (KeyError ''BRANCH'')
           | Some branch_name \<Rightarrow>
               (let access_token = environ X ''GHA_TOKEN'';
                    bot_access_token = environ X ''GHA_TOKEN_2''
                in seq (setup_git_author X)
                     (\<lambda>_. if event_name \<in> {''schedule'', ''workflow_dispatch''} then
                             create_pr_with_push X branch_name access_token []
                           else if event_name \<in> {''issue_comment'', ''pull_request''} then
                             update_pr X branch_name access_token bot_access_token
                           else raise (ValueError (''Unknown event name: '' @ event_name))))))"

subsection \<open>Notions used in the statements\<close>

text \<open>The two queries of the collaborator, with the arguments the script passes.\<close>

abbreviation changed_direct :: "extern \<Rightarrow> string \<Rightarrow> string list" where
  "changed_direct X b \<equiv> get_changed_dependencies X False b ''3.11'' (REPO_DIR X)"

abbreviation changed_all :: "extern \<Rightarrow> string \<Rightarrow> string list" where
  "changed_all X b \<equiv> get_changed_dependencies X True b ''3.11'' (REPO_DIR X)"

text \<open>The strings \<open>commit_message\<close> and \<open>long_description\<close> return when they return.\<close>

definition title_text :: "extern \<Rightarrow> string \<Rightarrow> string" where
  "title_text X b =
     (if changed_direct X b = [] then ''Update indirect dependencies''
      else ''Update '' @ join '', '' (map backtick (changed_direct X b)))"

definition body_text :: "extern \<Rightarrow> string \<Rightarrow> string" where
  "body_text X b = ''Updated packages: '' @ join '', '' (map backtick (changed_all X b))"

text \<open>The URL that \<open>list_pr_for_branch\<close> asks for.\<close>

definition lookup_url :: "string \<Rightarrow> string \<Rightarrow> string" where
  "lookup_url repo branch_name =
     BASE_URL @ ''/repos/'' @ repo @ ''/pulls?state=open&head=''
     @ takeWhile (\<lambda>c. c \<noteq> CHR ''/'') repo @ '':'' @ branch_name"

text \<open>An action keeps the working directory; an action only adds to the trace.\<close>

definition keeps_cwd :: "'a action \<Rightarrow> bool" where
  "keeps_cwd m = (\<forall>s. cwd (snd (m s)) = cwd s)"

definition appends :: "'a action \<Rightarrow> bool" where
  "appends m = (\<forall>s. prefix (trace s) (trace (snd (m s))))"

text \<open>
  A concrete outside world for the examples: every child process exits with 0, the
  two directories exist, the platform answers the lookup with the given list of pull
  requests and every POST with status 201.
\<close>

definition demo :: "(string \<times> string) list \<Rightarrow> string list \<Rightarrow> string list \<Rightarrow> pull list \<Rightarrow> extern" where
  "demo env direct every prs =
     \<lparr>environ = map_of env,
      REPO_DIR = ''/work/napari_repo'',
      dirs = (\<lambda>p. p = ''/work'' \<or> p = ''/work/napari_repo''),
      returncode = (\<lambda>_ _. 0),
      get_changed_dependencies = (\<lambda>all_packages _ _ _. if all_packages then every else direct),
      requests_get = (\<lambda>_. Inr \<lparr>status_code = 200, json = Some prs\<rparr>),
      requests_post = (\<lambda>_ _ _. Inr \<lparr>status_code = 201,
                         json = Some [''html_url'' \<mapsto> ''https://github.com/napari/napari/pull/7'']\<rparr>)\<rparr>"

definition start :: state where
  "start = \<lparr>cwd = ''/work'', trace = []\<rparr>"

section \<open>Basic facts\<close>

lemma seq_ret [simp]: "seq (ret x) f s = f x s"
  by (simp add: seq_def ret_def)

lemma seq_raise [simp]: "seq (raise e) f s = (Inl e, s)"
  by (simp add: seq_def raise_def)

lemma cd_enter:
  assumes "dirs X (cwd s)" and "dirs X path"
  shows "cd X path body s =
           (case body (s\<lparr>cwd := path\<rparr>) of (r, s1) \<Rightarrow> (r, s1\<lparr>cwd := cwd s\<rparr>))"
  using assms by (simp add: cd_def getcwd_def chdir_def seq_def split: prod.splits)

lemma cd_cwd: "cwd (snd (cd X path body s)) = cwd s"
  by (simp add: cd_def getcwd_def chdir_def seq_def split: prod.splits sum.splits)

lemma commit_message_run:
  assumes "dirs X (cwd s)" and "dirs X (REPO_DIR X)"
  shows "commit_message X b s =
     (Inr (title_text X b), s)"
  using assms by (simp add: commit_message_def seq_def cd_enter ret_def title_text_def)

lemma long_description_run:
  assumes "dirs X (cwd s)" and "dirs X (REPO_DIR X)"
  shows "long_description X b s =
     (Inr (body_text X b), s)"
  using assms by (simp add: long_description_def seq_def cd_enter ret_def body_text_def)

lemma str_nat_42: "str_nat 42 = ''42''"
  by (simp add: str_nat.simps [of 42] str_nat.simps [of 4])

lemma py_int_42: "py_int ''42'' = Inr 42"
  by (simp add: py_int_def strip_def isspace_def unsigned_def digit_val_def)

lemma create_commit_run:
  assumes "dirs X (cwd s)" and "dirs X (REPO_DIR X)"
    and "\<And>argv. returncode X (REPO_DIR X) argv = 0"
  shows "create_commit X message branch_name s =
     (Inr (), s\<lparr>trace := trace s @
        (if branch_name \<noteq> [] then [Run (REPO_DIR X) [''git'', ''checkout'', ''-B'', branch_name]]
         else []) @
        [Run (REPO_DIR X) [''git'', ''add'', ''-u''],
         Run (REPO_DIR X) [''git'', ''commit'', ''-m'', message]]\<rparr>)"
  using assms by (simp add: create_commit_def cd_enter seq_def subprocess_run_def ret_def)

lemma push_run:
  assumes "dirs X (cwd s)" and "dirs X (REPO_DIR X)"
    and "\<And>argv. returncode X (REPO_DIR X) argv = 0"
  shows "push X branch_name update s =
     (Inr (), s\<lparr>trace := trace s @
        [Run (REPO_DIR X) [''git'', ''push'', ''--force'', ''--set-upstream'',
                          if update then ''napari-bot'' else ''origin'', branch_name]]\<rparr>)"
  using assms by (simp add: push_def cd_enter subprocess_run_def)

lemma list_pr_for_branch_run:
  assumes "requests_get X (BASE_URL @ ''/repos/'' @ repo @ ''/pulls?state=open&head=''
             @ takeWhile (\<lambda>c. c \<noteq> CHR ''/'') repo @ '':'' @ branch_name) = Inr r"
    and "\<not> (400 \<le> status_code r \<and> status_code r < 600)"
    and "json r = Some prs"
  shows "list_pr_for_branch X branch_name access_token repo s =
     (Inr (case prs of [] \<Rightarrow> None | pr # _ \<Rightarrow> Some (number pr)),
      s\<lparr>trace := trace s @ [Get (BASE_URL @ ''/repos/'' @ repo @ ''/pulls?state=open&head=''
             @ takeWhile (\<lambda>c. c \<noteq> CHR ''/'') repo @ '':'' @ branch_name)]\<rparr>)"
  using assms
  by (auto simp add: list_pr_for_branch_def Let_def seq_def http_get_def raise_for_status_def
      get_json_def ret_def raise_def split: list.splits)

lemma snd_raise_for_status [simp]: "snd (raise_for_status r s) = s"
  by (simp add: raise_for_status_def raise_def ret_def)

lemma snd_get_json [simp]: "snd (get_json r s) = s"
  by (simp add: get_json_def raise_def ret_def split: option.splits)

lemma snd_ret [simp]: "snd (ret x s) = s"
  by (simp add: ret_def)

lemma snd_raise [simp]: "snd (raise e s) = s"
  by (simp add: raise_def)

lemma snd_seq_pure:
  assumes "snd (m s) = s" and "\<And>x. snd (f x s) = s"
  shows "snd (seq m f s) = s"
  using assms by (cases "m s") (auto simp add: seq_def split: sum.splits)

lemma http_post_then:
  assumes "\<And>r s'. snd (k r s') = s'"
  shows "snd (seq (http_post X url headers payload) k s) =
           s\<lparr>trace := trace s @ [Post url headers payload]\<rparr>"
  using assms by (simp add: seq_def http_post_def split: sum.splits)

lemma commit_message_seq:
  assumes "dirs X (cwd s)" and "dirs X (REPO_DIR X)"
  shows "seq (commit_message X b) f s =
     f (title_text X b) s"
  by (simp only: seq_def commit_message_run [OF assms] prod.case sum.case)

lemma long_description_seq:
  assumes "dirs X (cwd s)" and "dirs X (REPO_DIR X)"
  shows "seq (long_description X b) f s =
     f (body_text X b) s"
  by (simp only: seq_def long_description_run [OF assms] prod.case sum.case)

lemma create_pr_trace:
  assumes "dirs X (cwd s)" and "dirs X (REPO_DIR X)"
  shows "snd (create_pr X base_branch new_branch access_token repo source_user s) =
     s\<lparr>trace := trace s @
     [Post (BASE_URL @ ''/repos/'' @ repo @ ''/pulls'')
        [(''Authorization'', ''token '' @ fmt access_token)]
        [(''title'', PStr (title_text X base_branch)),
         (''body'', PStr (body_text X base_branch)),
         (''head'', PStr (if source_user \<noteq> [] then source_user @ '':'' @ new_branch
                          else new_branch)),
         (''base'', PStr base_branch),
         (''maintainer_can_modify'', PBool True)]]\<rparr>"
proof -
  have k: "snd (seq (raise_for_status r)
             (\<lambda>_. seq (get_json r)
                (\<lambda>j. case j ''html_url'' of None \<Rightarrow> raise (KeyError ''html_url'')
                      | Some _ \<Rightarrow> ret ())) s') = s'"
    for r :: "(string \<rightharpoonup> string) response" and s'
    by (intro snd_seq_pure) (simp_all split: option.splits)
  show ?thesis
    unfolding create_pr_def Let_def
    by (simp only: commit_message_seq [OF assms]
        long_description_seq [OF assms] http_post_then [OF k])
qed

lemma update_own_pr_trace:
  assumes "dirs X (cwd s)" and "dirs X (REPO_DIR X)"
  shows "snd (update_own_pr X pr_number access_token base_branch repo s) =
     s\<lparr>trace := trace s @
     [Post (BASE_URL @ ''/repos/'' @ repo @ ''/pulls/'' @ str_int pr_number)
        [(''Authorization'', ''token '' @ fmt access_token)]
        [(''title'', PStr (title_text X base_branch)),
         (''body'', PStr (body_text X base_branch))]]\<rparr>"
  unfolding update_own_pr_def Let_def
  by (simp only: commit_message_seq [OF assms]
      long_description_seq [OF assms] http_post_then [OF snd_raise_for_status])

lemma checkout_seq:
  assumes "dirs X (cwd s)" and "dirs X (REPO_DIR X)"
    and "\<And>argv. returncode X (REPO_DIR X) argv = 0"
  shows "seq (cd X (REPO_DIR X) (subprocess_run X argv)) f s =
           f () (s\<lparr>trace := trace s @ [Run (REPO_DIR X) argv]\<rparr>)"
  using assms by (simp add: seq_def cd_enter subprocess_run_def)

lemma create_commit_seq:
  assumes "dirs X (cwd s)" and "dirs X (REPO_DIR X)"
    and "\<And>argv. returncode X (REPO_DIR X) argv = 0"
  shows "seq (create_commit X message branch_name) f s =
     f () (s\<lparr>trace := trace s @
        (if branch_name \<noteq> [] then [Run (REPO_DIR X) [''git'', ''checkout'', ''-B'', branch_name]]
         else []) @
        [Run (REPO_DIR X) [''git'', ''add'', ''-u''],
         Run (REPO_DIR X) [''git'', ''commit'', ''-m'', message]]\<rparr>)"
  by (simp only: seq_def create_commit_run [OF assms] prod.case sum.case)

lemma push_seq:
  assumes "dirs X (cwd s)" and "dirs X (REPO_DIR X)"
    and "\<And>argv. returncode X (REPO_DIR X) argv = 0"
  shows "seq (push X branch_name update) f s =
     f () (s\<lparr>trace := trace s @
        [Run (REPO_DIR X) [''git'', ''push'', ''--force'', ''--set-upstream'',
                          if update then ''napari-bot'' else ''origin'', branch_name]]\<rparr>)"
  by (simp only: seq_def push_run [OF assms] prod.case sum.case)

lemma list_pr_for_branch_seq:
  assumes "requests_get X (lookup_url repo branch_name) = Inr r"
    and "\<not> (400 \<le> status_code r \<and> status_code r < 600)"
    and "json r = Some prs"
  shows "seq (list_pr_for_branch X branch_name access_token repo) f s =
     f (case prs of [] \<Rightarrow> None | pr # _ \<Rightarrow> Some (number pr))
       (s\<lparr>trace := trace s @ [Get (lookup_url repo branch_name)]\<rparr>)"
  by (simp only: seq_def list_pr_for_branch_run [OF assms [unfolded lookup_url_def]]
      lookup_url_def prod.case sum.case)

lemma create_pr_with_push_trace:
  assumes d: "dirs X (cwd s)" "dirs X (REPO_DIR X)"
    and g: "\<And>argv. returncode X (REPO_DIR X) argv = 0"
    and repo: "repo = (if repo0 = [] then
                  environ_get (environ X) ''GITHUB_REPOSITORY'' ''napari/napari'' else repo0)"
    and r: "requests_get X (lookup_url repo (new_branch_name b)) = Inr r"
       "\<not> (400 \<le> status_code r \<and> status_code r < 600)" "json r = Some prs"
  shows "snd (create_pr_with_push X b tok repo0 s) =
     s\<lparr>trace := trace s @
       [Run (REPO_DIR X) [''git'', ''checkout'', ''-B'', new_branch_name b],
        Run (REPO_DIR X) [''git'', ''add'', ''-u''],
        Run (REPO_DIR X) [''git'', ''commit'', ''-m'', title_text X b],
        Run (REPO_DIR X) [''git'', ''push'', ''--force'', ''--set-upstream'', ''origin'',
                          new_branch_name b],
        Get (lookup_url repo (new_branch_name b)),
        (case prs of
           [] \<Rightarrow>
             Post (BASE_URL @ ''/repos/'' @ repo @ ''/pulls'')
               [(''Authorization'', ''token '' @ fmt tok)]
               [(''title'', PStr (title_text X b)), (''body'', PStr (body_text X b)),
                (''head'', PStr (new_branch_name b)), (''base'', PStr b),
                (''maintainer_can_modify'', PBool True)]
         | pr # _ \<Rightarrow>
             if number pr \<noteq> 0 then
               Post (BASE_URL @ ''/repos/'' @ repo @ ''/pulls/'' @ str_int (number pr))
                 [(''Authorization'', ''token '' @ fmt tok)]
                 [(''title'', PStr (title_text X b)), (''body'', PStr (body_text X b))]
             else
               Post (BASE_URL @ ''/repos/'' @ repo @ ''/pulls'')
                 [(''Authorization'', ''token '' @ fmt tok)]
                 [(''title'', PStr (title_text X b)), (''body'', PStr (body_text X b)),
                  (''head'', PStr (new_branch_name b)), (''base'', PStr b),
                  (''maintainer_can_modify'', PBool True)])]\<rparr>"
proof -
  have r': "requests_get X
      (lookup_url (if repo0 = [] then
          environ_get (environ X) ''GITHUB_REPOSITORY'' ''napari/napari'' else repo0)
        (new_branch_name b)) = Inr r"
    using r(1) repo by simp
  show ?thesis
    unfolding create_pr_with_push_def Let_def
    by (cases prs)
      (simp_all add: checkout_seq commit_message_seq create_commit_seq push_seq
        list_pr_for_branch_seq [OF r' r(2,3)] create_pr_trace update_own_pr_trace d g repo)
qed

lemma add_comment_to_pr_snd:
  "snd (add_comment_to_pr X n message tok repo s) =
     s\<lparr>trace := trace s @
       [Post (BASE_URL @ ''/repos/'' @ repo @ ''/issues/'' @ str_int n @ ''/comments'')
          [(''Authorization'', ''token '' @ fmt (environ X ''GITHUB_TOKEN''))]
          [(''body'', PStr message)]]\<rparr>"
  unfolding add_comment_to_pr_def Let_def
  by (simp only: http_post_then [OF snd_raise_for_status])

lemma get_pr_number_seq:
  assumes "environ X ''PR_NUMBER'' = Some p" and "py_int p = Inr n"
  shows "seq (get_pr_number X) f s = f n s"
  using assms by (simp add: get_pr_number_def)

lemma update_pr_eq:
  assumes d: "dirs X (cwd s)" "dirs X (REPO_DIR X)"
    and g: "\<And>argv. returncode X (REPO_DIR X) argv = 0"
    and p: "environ X ''PR_NUMBER'' = Some p" "py_int p = Inr n"
    and nb: "nb = ''auto-update-dependencies/'' @ fmt (environ X ''FULL_NAME'') @ ''/'' @ b"
  shows "update_pr X b tok tok2 s =
     add_comment_to_pr X n
       (comment_content (body_text X (''origin/'' @ b)) (fmt (environ X ''FULL_NAME'')) b nb)
       tok (environ_get (environ X) ''GITHUB_REPOSITORY'' ''napari/napari'')
       (s\<lparr>trace := trace s @
         [Run (REPO_DIR X) [''git'', ''checkout'', ''-B'', nb],
          Run (REPO_DIR X) [''git'', ''add'', ''-u''],
          Run (REPO_DIR X) [''git'', ''commit'', ''-m'', title_text X b],
          Run (REPO_DIR X) [''git'', ''push'', ''--force'', ''--set-upstream'', ''napari-bot'',
                            nb]]\<rparr>)"
  unfolding update_pr_def Let_def
  by (simp add: get_pr_number_seq [OF p] commit_message_seq create_commit_seq
      long_description_seq push_seq d g nb)

lemma setup_git_author_seq:
  assumes "\<And>argv. returncode X (cwd s) argv = 0"
  shows "seq (setup_git_author X) f s =
     f () (s\<lparr>trace := trace s @
       [Run (cwd s) [''git'', ''config'', ''--global'', ''user.name'', ''napari-bot''],
        Run (cwd s) [''git'', ''config'', ''--global'', ''user.email'',
                     ''napari-bot@users.noreply.github.com'']]\<rparr>)"
  using assms by (simp add: setup_git_author_def seq_def subprocess_run_def)

subsection \<open>The working directory is kept\<close>

lemma keeps_cwd_ret: "keeps_cwd (ret x)"
  by (simp add: keeps_cwd_def)

lemma keeps_cwd_raise: "keeps_cwd (raise e)"
  by (simp add: keeps_cwd_def)

lemma keeps_cwd_seq:
  assumes "keeps_cwd m" and "\<And>x. keeps_cwd (f x)"
  shows "keeps_cwd (seq m f)"
  unfolding keeps_cwd_def
proof
  fix s
  show "cwd (snd (seq m f s)) = cwd s"
  proof (cases "m s")
    case (Pair r s')
    with assms(1) have c: "cwd s' = cwd s"
      by (auto simp add: keeps_cwd_def dest: spec [of _ s])
    show ?thesis
    proof (cases r)
      case (Inl e)
      with Pair c show ?thesis by (simp add: seq_def)
    next
      case (Inr x)
      with Pair c assms(2) [of x] show ?thesis by (simp add: seq_def keeps_cwd_def)
    qed
  qed
qed

lemma keeps_cwd_cd: "keeps_cwd (cd X path body)"
  by (simp add: keeps_cwd_def cd_cwd)

lemma keeps_cwd_subprocess_run: "keeps_cwd (subprocess_run X argv)"
  by (simp add: keeps_cwd_def subprocess_run_def Let_def)

lemma keeps_cwd_http_get: "keeps_cwd (http_get X url)"
  by (simp add: keeps_cwd_def http_get_def)

lemma keeps_cwd_http_post: "keeps_cwd (http_post X url h p)"
  by (simp add: keeps_cwd_def http_post_def)

lemma keeps_cwd_raise_for_status: "keeps_cwd (raise_for_status r)"
  by (simp add: keeps_cwd_def)

lemma keeps_cwd_get_json: "keeps_cwd (get_json r)"
  by (simp add: keeps_cwd_def)

lemma keeps_cwd_setup_git_author: "keeps_cwd (setup_git_author X)"
  unfolding setup_git_author_def
  by (intro keeps_cwd_seq keeps_cwd_subprocess_run)

lemma keeps_cwd_create_commit: "keeps_cwd (create_commit X message branch_name)"
  unfolding create_commit_def by (rule keeps_cwd_cd)

lemma keeps_cwd_push: "keeps_cwd (push X branch_name update)"
  unfolding push_def by (rule keeps_cwd_cd)

lemma keeps_cwd_commit_message: "keeps_cwd (commit_message X branch_name)"
  unfolding commit_message_def
  by (intro keeps_cwd_seq keeps_cwd_cd) (simp add: keeps_cwd_ret)

lemma keeps_cwd_long_description: "keeps_cwd (long_description X branch_name)"
  unfolding long_description_def
  by (intro keeps_cwd_seq keeps_cwd_cd keeps_cwd_ret)

lemma keeps_cwd_list_pr_for_branch: "keeps_cwd (list_pr_for_branch X branch_name tok repo)"
  unfolding list_pr_for_branch_def Let_def
  by (intro keeps_cwd_seq keeps_cwd_http_get keeps_cwd_raise_for_status keeps_cwd_get_json)
    (simp add: keeps_cwd_ret split: list.splits)

lemma keeps_cwd_update_own_pr: "keeps_cwd (update_own_pr X n tok base_branch repo)"
  unfolding update_own_pr_def Let_def
  by (intro keeps_cwd_seq keeps_cwd_commit_message keeps_cwd_long_description
      keeps_cwd_http_post keeps_cwd_raise_for_status)

lemma keeps_cwd_create_pr: "keeps_cwd (create_pr X base_branch new_branch tok repo source_user)"
  unfolding create_pr_def Let_def
  by (intro keeps_cwd_seq keeps_cwd_commit_message keeps_cwd_long_description
      keeps_cwd_http_post keeps_cwd_raise_for_status keeps_cwd_get_json)
    (simp add: keeps_cwd_ret keeps_cwd_raise split: option.splits)

lemma keeps_cwd_create_pr_with_push: "keeps_cwd (create_pr_with_push X branch_name tok repo0)"
  unfolding create_pr_with_push_def Let_def
  by (intro keeps_cwd_seq keeps_cwd_cd keeps_cwd_commit_message keeps_cwd_create_commit
      keeps_cwd_push keeps_cwd_list_pr_for_branch)
    (simp add: keeps_cwd_create_pr keeps_cwd_update_own_pr split: option.splits)

lemma keeps_cwd_add_comment_to_pr: "keeps_cwd (add_comment_to_pr X n message tok repo)"
  unfolding add_comment_to_pr_def Let_def
  by (intro keeps_cwd_seq keeps_cwd_http_post keeps_cwd_raise_for_status)

lemma keeps_cwd_get_pr_number: "keeps_cwd (get_pr_number X)"
  unfolding get_pr_number_def
  by (simp add: keeps_cwd_ret keeps_cwd_raise split: option.splits sum.splits)

lemma keeps_cwd_update_pr: "keeps_cwd (update_pr X branch_name tok tok2)"
  unfolding update_pr_def Let_def
  by (intro keeps_cwd_seq keeps_cwd_get_pr_number keeps_cwd_commit_message
      keeps_cwd_create_commit keeps_cwd_long_description keeps_cwd_push
      keeps_cwd_add_comment_to_pr)

lemma keeps_cwd_main: "keeps_cwd (main X)"
proof (cases "environ X ''GITHUB_EVENT_NAME''")
  case None
  then show ?thesis by (simp add: main_def keeps_cwd_raise)
next
  case ev: (Some event_name)
  show ?thesis
  proof (cases "environ X ''BRANCH''")
    case None
    with ev show ?thesis by (simp add: main_def keeps_cwd_raise)
  next
    case (Some branch_name)
    have "keeps_cwd (seq (setup_git_author X)
        (\<lambda>_. if event_name \<in> {''schedule'', ''workflow_dispatch''} then
                create_pr_with_push X branch_name (environ X ''GHA_TOKEN'') []
              else if event_name \<in> {''issue_comment'', ''pull_request''} then
                update_pr X branch_name (environ X ''GHA_TOKEN'') (environ X ''GHA_TOKEN_2'')
              else raise (ValueError (''Unknown event name: '' @ event_name))))"
      by (intro keeps_cwd_seq keeps_cwd_setup_git_author)
        (simp only: keeps_cwd_raise keeps_cwd_create_pr_with_push keeps_cwd_update_pr
          if_split [where P = keeps_cwd] simp_thms)
    with ev Some show ?thesis by (simp only: main_def Let_def option.case)
  qed
qed

subsection \<open>The trace only grows\<close>

lemma appends_ret: "appends (ret x)"
  by (simp add: appends_def)

lemma appends_raise: "appends (raise e)"
  by (simp add: appends_def)

lemma seq_prefix:
  assumes "snd (m s) = s1" and "\<And>x. appends (f x)"
  shows "prefix (trace s1) (trace (snd (seq m f s)))"
proof (cases "fst (m s)")
  case (Inl e)
  with assms(1) show ?thesis by (cases "m s") (simp add: seq_def)
next
  case (Inr x)
  with assms(1) assms(2) [of x] show ?thesis
    by (cases "m s") (simp add: seq_def appends_def)
qed

lemma appends_seq:
  assumes "appends m" and "\<And>x. appends (f x)"
  shows "appends (seq m f)"
  unfolding appends_def
proof
  fix s
  from assms(1) have "prefix (trace s) (trace (snd (m s)))"
    by (simp add: appends_def)
  also have "prefix (trace (snd (m s))) (trace (snd (seq m f s)))"
    by (rule seq_prefix [where m = m and s = s, OF refl assms(2)])
  finally show "prefix (trace s) (trace (snd (seq m f s)))" .
qed

lemma appends_cd:
  assumes "appends body"
  shows "appends (cd X path body)"
  unfolding appends_def
proof
  fix s
  have c: "trace (snd (chdir X p s')) = trace s'" for p s'
    by (simp add: chdir_def)
  show "prefix (trace s) (trace (snd (cd X path body s)))"
  proof (cases "dirs X (cwd s)")
    case False
    then show ?thesis by (simp add: cd_def getcwd_def)
  next
    case True
    have "appends (seq (chdir X path) (\<lambda>_. body))"
      by (intro appends_seq assms) (simp add: appends_def chdir_def)
    then have "prefix (trace s) (trace (snd (seq (chdir X path) (\<lambda>_. body) s)))"
      by (simp add: appends_def)
    with True show ?thesis
      by (auto simp add: cd_def getcwd_def chdir_def split: prod.splits sum.splits)
  qed
qed

lemma appends_subprocess_run: "appends (subprocess_run X argv)"
  by (simp add: appends_def subprocess_run_def Let_def)

lemma appends_http_get: "appends (http_get X url)"
  by (simp add: appends_def http_get_def)

lemma appends_http_post: "appends (http_post X url h p)"
  by (simp add: appends_def http_post_def)

lemma appends_raise_for_status: "appends (raise_for_status r)"
  by (simp add: appends_def)

lemma appends_get_json: "appends (get_json r)"
  by (simp add: appends_def)

lemma appends_create_commit: "appends (create_commit X message branch_name)"
  unfolding create_commit_def
  by (intro appends_cd appends_seq appends_subprocess_run)
    (simp add: appends_subprocess_run appends_ret)

lemma appends_push: "appends (push X branch_name update)"
  unfolding push_def
  by (intro appends_cd) (simp add: appends_subprocess_run)

lemma appends_commit_message: "appends (commit_message X branch_name)"
  unfolding commit_message_def
  by (intro appends_seq appends_cd appends_ret) (simp add: appends_ret)

lemma appends_long_description: "appends (long_description X branch_name)"
  unfolding long_description_def
  by (intro appends_seq appends_cd appends_ret)

lemma appends_list_pr_for_branch: "appends (list_pr_for_branch X branch_name tok repo)"
  unfolding list_pr_for_branch_def Let_def
  by (intro appends_seq appends_http_get appends_raise_for_status appends_get_json)
    (simp add: appends_ret split: list.splits)

lemma appends_update_own_pr: "appends (update_own_pr X n tok base_branch repo)"
  unfolding update_own_pr_def Let_def
  by (intro appends_seq appends_commit_message appends_long_description
      appends_http_post appends_raise_for_status)

lemma appends_create_pr: "appends (create_pr X base_branch new_branch tok repo source_user)"
  unfolding create_pr_def Let_def
  by (intro appends_seq appends_commit_message appends_long_description
      appends_http_post appends_raise_for_status appends_get_json)
    (simp add: appends_ret appends_raise split: option.splits)

lemma create_pr_with_push_first:
  assumes "dirs X (cwd s)" and "dirs X (REPO_DIR X)"
  shows "prefix (trace s @ [Run (REPO_DIR X) [''git'', ''checkout'', ''-B'', new_branch_name b]])
           (trace (snd (create_pr_with_push X b tok repo0 s)))"
proof -
  have co:
    "snd (cd X (REPO_DIR X)
            (subprocess_run X [''git'', ''checkout'', ''-B'', new_branch_name b]) s) =
       s\<lparr>trace := trace s @
              [Run (REPO_DIR X) [''git'', ''checkout'', ''-B'', new_branch_name b]]\<rparr>"
    using assms by (simp add: cd_enter subprocess_run_def Let_def)
  have "prefix (trace (s\<lparr>trace := trace s @
              [Run (REPO_DIR X) [''git'', ''checkout'', ''-B'', new_branch_name b]]\<rparr>))
          (trace (snd (create_pr_with_push X b tok repo0 s)))"
    unfolding create_pr_with_push_def Let_def
    by (rule seq_prefix
        [where m = "cd X (REPO_DIR X)
                      (subprocess_run X [''git'', ''checkout'', ''-B'', new_branch_name b])"
           and s = s, OF co])
      (intro appends_seq appends_commit_message appends_create_commit appends_push
        appends_list_pr_for_branch,
       simp add: appends_create_pr appends_update_own_pr split: option.splits)
  then show ?thesis by simp
qed

subsection \<open>What the unknown event does\<close>

lemma main_unknown:
  assumes "environ X ''GITHUB_EVENT_NAME'' = Some ev"
    and "ev \<notin> {''schedule'', ''workflow_dispatch'', ''issue_comment'', ''pull_request''}"
  shows "main X s =
     (case environ X ''BRANCH'' of
        None \<Rightarrow> (Inl (KeyError ''BRANCH''), s)
      | Some _ \<Rightarrow>
          if returncode X (cwd s) [''git'', ''config'', ''--global'', ''user.name'', ''napari-bot''] \<noteq> 0
          then (Inl (CalledProcessError
                       [''git'', ''config'', ''--global'', ''user.name'', ''napari-bot'']),
                s\<lparr>trace := trace s @
                  [Run (cwd s) [''git'', ''config'', ''--global'', ''user.name'', ''napari-bot'']]\<rparr>)
          else if returncode X (cwd s)
                    [''git'', ''config'', ''--global'', ''user.email'',
                     ''napari-bot@users.noreply.github.com''] \<noteq> 0
          then (Inl (CalledProcessError
                       [''git'', ''config'', ''--global'', ''user.email'',
                        ''napari-bot@users.noreply.github.com'']),
                s\<lparr>trace := trace s @
                  [Run (cwd s) [''git'', ''config'', ''--global'', ''user.name'', ''napari-bot''],
                   Run (cwd s) [''git'', ''config'', ''--global'', ''user.email'',
                                ''napari-bot@users.noreply.github.com'']]\<rparr>)
          else (Inl (ValueError (''Unknown event name: '' @ ev)),
                s\<lparr>trace := trace s @
                  [Run (cwd s) [''git'', ''config'', ''--global'', ''user.name'', ''napari-bot''],
                   Run (cwd s) [''git'', ''config'', ''--global'', ''user.email'',
                                ''napari-bot@users.noreply.github.com'']]\<rparr>))"
  using assms
  by (simp add: main_def Let_def setup_git_author_def seq_def subprocess_run_def raise_def
      split: option.splits)

subsection \<open>Texts and the environment\<close>

lemma join_concat: "join sep (x # xs) = x @ concat (map (\<lambda>y. sep @ y) xs)"
  by (induction xs arbitrary: x) simp_all

subsection \<open>The environment variable of the run identifier is not read\<close>

lemma getcwd_environ: "getcwd (X\<lparr>environ := e\<rparr>) = getcwd X"
  by (simp add: fun_eq_iff getcwd_def)

lemma chdir_environ: "chdir (X\<lparr>environ := e\<rparr>) = chdir X"
  by (simp add: fun_eq_iff chdir_def)

lemma cd_environ: "cd (X\<lparr>environ := e\<rparr>) = cd X"
  unfolding fun_eq_iff cd_def getcwd_environ chdir_environ by simp

lemma subprocess_run_environ: "subprocess_run (X\<lparr>environ := e\<rparr>) = subprocess_run X"
  by (simp add: fun_eq_iff subprocess_run_def)

lemma http_post_environ: "http_post (X\<lparr>environ := e\<rparr>) = http_post X"
  by (simp add: fun_eq_iff http_post_def)

lemma commit_message_environ: "commit_message (X\<lparr>environ := e\<rparr>) = commit_message X"
  unfolding fun_eq_iff commit_message_def cd_environ by simp

lemma long_description_environ: "long_description (X\<lparr>environ := e\<rparr>) = long_description X"
  unfolding fun_eq_iff long_description_def cd_environ by simp

lemma create_commit_environ: "create_commit (X\<lparr>environ := e\<rparr>) = create_commit X"
  unfolding fun_eq_iff create_commit_def cd_environ subprocess_run_environ by simp

lemma push_environ: "push (X\<lparr>environ := e\<rparr>) = push X"
  unfolding fun_eq_iff push_def cd_environ subprocess_run_environ by simp

lemma update_pr_run_id:
  "update_pr (X\<lparr>environ := (environ X)(''GITHUB_RUN_ID'' := v)\<rparr>) b tok tok2 =
   update_pr X b tok tok2"
  unfolding update_pr_def get_pr_number_def add_comment_to_pr_def environ_get_def
    commit_message_environ long_description_environ create_commit_environ push_environ
    http_post_environ
  by simp

lemma run_id_in_comment:
  "sublist ''{os.environ.get('GITHUB_RUN_ID')}'' (comment_content d r b nb)"
proof -
  have "comment_content d r b nb =
      (d
       @ ''\<newline>\<newline>This workflow cannot automatically update your PR or create PR to your repository. ''
       @ ''But you could open such PR by clicking the link:''
       @ (''https://github.com/'' @ r @ ''/compare/'' @ b @ ''...napari-bot:'' @ nb @ ''.'')
       @ ''\<newline>\<newline>''
       @ ''You could also get the updated files from the ''
       @ (''https://github.com/napari-bot/napari/tree/'' @ nb @ ''/resources/constraints.'')
       @ ''Or ask the maintainers to provide you content of the constraints artifact.''
       @ ''from the run https://github.com/PartSeg/napari/actions/runs/'')
      @ ''{os.environ.get('GITHUB_RUN_ID')}''
      @ ''\<newline>\<newline>To open PR with this changes please click this link: ''"
    by (simp add: comment_content_def)
  then show ?thesis unfolding sublist_def by blast
qed

lemma compare_link_in_comment:
  "sublist (''https://github.com/'' @ r @ ''/compare/'' @ b @ ''...napari-bot:'' @ nb @ ''.'')
     (comment_content d r b nb)"
proof -
  have "comment_content d r b nb =
      (d
       @ ''\<newline>\<newline>This workflow cannot automatically update your PR or create PR to your repository. ''
       @ ''But you could open such PR by clicking the link:'')
      @ (''https://github.com/'' @ r @ ''/compare/'' @ b @ ''...napari-bot:'' @ nb @ ''.'')
      @ (''\<newline>\<newline>''
       @ ''You could also get the updated files from the ''
       @ (''https://github.com/napari-bot/napari/tree/'' @ nb @ ''/resources/constraints.'')
       @ ''Or ask the maintainers to provide you content of the constraints artifact.''
       @ ''from the run https://github.com/PartSeg/napari/actions/runs/{os.environ.get('GITHUB_RUN_ID')}''
       @ ''\<newline>\<newline>''
       @ ''To open PR with this changes please click this link: '')"
    by (simp add: comment_content_def)
  then show ?thesis unfolding sublist_def by blast
qed

lemma str_nat_7: "str_nat 7 = ''7''"
  by (simp add: str_nat.simps [of 7])

lemma backtick_eq: "backtick = (\<lambda>x. ''`'' @ x @ ''`'')"
  by (simp add: fun_eq_iff backtick_def)

lemma cd_cases:
  "cd X path body s =
     (if \<not> dirs X (cwd s) then (Inl (FileNotFoundError (cwd s)), s)
      else if \<not> dirs X path then (Inl (FileNotFoundError path), s)
      else (case body (s\<lparr>cwd := path\<rparr>) of (r, s1) \<Rightarrow> (r, s1\<lparr>cwd := cwd s\<rparr>)))"
  by (simp add: cd_def getcwd_def chdir_def seq_def split: prod.splits)

lemma commit_message_cases:
  "commit_message X b s =
     (if \<not> dirs X (cwd s) then (Inl (FileNotFoundError (cwd s)), s)
      else if \<not> dirs X (REPO_DIR X) then (Inl (FileNotFoundError (REPO_DIR X)), s)
      else (Inr (title_text X b), s))"
  by (simp add: commit_message_def seq_def cd_cases ret_def title_text_def)

lemma long_description_cases:
  "long_description X b s =
     (if \<not> dirs X (cwd s) then (Inl (FileNotFoundError (cwd s)), s)
      else if \<not> dirs X (REPO_DIR X) then (Inl (FileNotFoundError (REPO_DIR X)), s)
      else (Inr (body_text X b), s))"
  by (simp add: long_description_def seq_def cd_cases ret_def body_text_def)

section \<open>The properties\<close>

text \<open>
  Claim C1. In \<open>create_pr_with_push\<close>, once the branch is checked out, committed and
  pushed and the lookup for the derived branch name has answered with a list \<open>prs\<close> of
  pull requests (numbered from 1, as the platform numbers them): if \<open>prs\<close> is empty, the
  next and last request is the create-PR call (POST to \<^verbatim>\<open>/repos/{repo}/pulls\<close> with
  title, body, head and base); if \<open>prs\<close> has at least one entry, it is the update call
  (POST to \<^verbatim>\<open>/repos/{repo}/pulls/{number}\<close> with title and body) for the number of the
  first entry.
\<close>
theorem scheduled_path_creates_or_updates:
  assumes "dirs X (cwd s)" and "dirs X (REPO_DIR X)"
    and "\<And>argv. returncode X (REPO_DIR X) argv = 0"
    and "repo = (if repo0 = [] then
                   environ_get (environ X) ''GITHUB_REPOSITORY'' ''napari/napari'' else repo0)"
    and "requests_get X (lookup_url repo (new_branch_name b)) = Inr r"
    and "\<not> (400 \<le> status_code r \<and> status_code r < 600)"
    and "json r = Some prs"
    and "\<forall>pr \<in> set prs. 1 \<le> number pr"
  shows "snd (create_pr_with_push X b tok repo0 s) =
     s\<lparr>trace := trace s @
       [Run (REPO_DIR X) [''git'', ''checkout'', ''-B'', new_branch_name b],
        Run (REPO_DIR X) [''git'', ''add'', ''-u''],
        Run (REPO_DIR X) [''git'', ''commit'', ''-m'', title_text X b],
        Run (REPO_DIR X) [''git'', ''push'', ''--force'', ''--set-upstream'', ''origin'',
                          new_branch_name b],
        Get (lookup_url repo (new_branch_name b)),
        (case prs of
           [] \<Rightarrow>
             Post (BASE_URL @ ''/repos/'' @ repo @ ''/pulls'')
               [(''Authorization'', ''token '' @ fmt tok)]
               [(''title'', PStr (title_text X b)), (''body'', PStr (body_text X b)),
                (''head'', PStr (new_branch_name b)), (''base'', PStr b),
                (''maintainer_can_modify'', PBool True)]
         | pr # _ \<Rightarrow>
             Post (BASE_URL @ ''/repos/'' @ repo @ ''/pulls/'' @ str_int (number pr))
               [(''Authorization'', ''token '' @ fmt tok)]
               [(''title'', PStr (title_text X b)), (''body'', PStr (body_text X b))])]\<rparr>"
proof -
  have "number pr \<noteq> 0" if "prs = pr # rest" for pr rest
    using that assms(8) by auto
  then show ?thesis
    unfolding create_pr_with_push_trace [OF assms(1-7)]
    by (cases prs) simp_all
qed

text \<open>Both branches on a concrete world: no open pull request, and two of them (7 first).\<close>
theorem scheduled_path_creates_or_updates_witness:
  "trace (snd (create_pr_with_push (demo [] [''numpy''] [''numpy'', ''tqdm''] [])
                 ''main'' (Some ''t0ken'') [] start)) =
     [Run ''/work/napari_repo'' [''git'', ''checkout'', ''-B'', ''auto-update-dependencies''],
      Run ''/work/napari_repo'' [''git'', ''add'', ''-u''],
      Run ''/work/napari_repo'' [''git'', ''commit'', ''-m'', ''Update `numpy`''],
      Run ''/work/napari_repo'' [''git'', ''push'', ''--force'', ''--set-upstream'', ''origin'',
                                 ''auto-update-dependencies''],
      Get ''https://api.github.com/repos/napari/napari/pulls?state=open&head=napari:auto-update-dependencies'',
      Post ''https://api.github.com/repos/napari/napari/pulls''
        [(''Authorization'', ''token t0ken'')]
        [(''title'', PStr ''Update `numpy`''),
         (''body'', PStr ''Updated packages: `numpy`, `tqdm`''),
         (''head'', PStr ''auto-update-dependencies''), (''base'', PStr ''main''),
         (''maintainer_can_modify'', PBool True)]]
   \<and>
   trace (snd (create_pr_with_push
                 (demo [] [''numpy''] [''numpy'', ''tqdm''] [\<lparr>number = 7\<rparr>, \<lparr>number = 3\<rparr>])
                 ''main'' (Some ''t0ken'') [] start)) =
     [Run ''/work/napari_repo'' [''git'', ''checkout'', ''-B'', ''auto-update-dependencies''],
      Run ''/work/napari_repo'' [''git'', ''add'', ''-u''],
      Run ''/work/napari_repo'' [''git'', ''commit'', ''-m'', ''Update `numpy`''],
      Run ''/work/napari_repo'' [''git'', ''push'', ''--force'', ''--set-upstream'', ''origin'',
                                 ''auto-update-dependencies''],
      Get ''https://api.github.com/repos/napari/napari/pulls?state=open&head=napari:auto-update-dependencies'',
      Post ''https://api.github.com/repos/napari/napari/pulls/7''
        [(''Authorization'', ''token t0ken'')]
        [(''title'', PStr ''Update `numpy`''),
         (''body'', PStr ''Updated packages: `numpy`, `tqdm`'')]]"
  using scheduled_path_creates_or_updates
      [where X = "demo [] [''numpy''] [''numpy'', ''tqdm''] []" and s = start
         and repo = "''napari/napari''" and ?repo0.0 = "[]" and b = "''main''"
         and r = "\<lparr>status_code = 200, json = Some []\<rparr>" and prs = "[]"
         and tok = "Some ''t0ken''"]
    scheduled_path_creates_or_updates
      [where X = "demo [] [''numpy''] [''numpy'', ''tqdm''] [\<lparr>number = 7\<rparr>, \<lparr>number = 3\<rparr>]"
         and s = start and repo = "''napari/napari''" and ?repo0.0 = "[]" and b = "''main''"
         and r = "\<lparr>status_code = 200, json = Some [\<lparr>number = 7\<rparr>, \<lparr>number = 3\<rparr>]\<rparr>"
         and prs = "[\<lparr>number = 7\<rparr>, \<lparr>number = 3\<rparr>]" and tok = "Some ''t0ken''"]
  by (simp add: demo_def start_def environ_get_def new_branch_name_def title_text_def
      body_text_def lookup_url_def BASE_URL_def fmt_def backtick_def str_int_def str_nat_7)

text \<open>
  Claim C2. For the branch name \<^verbatim>\<open>main\<close> the working branch of the scheduled path is
  \<^verbatim>\<open>auto-update-dependencies\<close>; for every other name \<open>b\<close> it is
  \<^verbatim>\<open>auto-update-dependencies-\<close> followed by \<open>b\<close>. It is the branch that
  \<open>create_pr_with_push\<close> checks out first (when the repository directory can be
  entered), whatever happens afterwards.
\<close>
theorem working_branch_name:
  "new_branch_name ''main'' = ''auto-update-dependencies''
   \<and> (b \<noteq> ''main'' \<longrightarrow> new_branch_name b = ''auto-update-dependencies-'' @ b)
   \<and> (dirs X (cwd s) \<and> dirs X (REPO_DIR X) \<longrightarrow>
        prefix
          (trace s @
           [Run (REPO_DIR X)
              [''git'', ''checkout'', ''-B'',
               if b = ''main'' then ''auto-update-dependencies''
               else ''auto-update-dependencies-'' @ b]])
          (trace (snd (create_pr_with_push X b tok repo0 s))))"
  using create_pr_with_push_first [of X s b tok repo0]
  by (simp add: new_branch_name_def)

text \<open>The two cases on a concrete world.\<close>
theorem working_branch_name_witness:
  "new_branch_name ''v0.5.x'' = ''auto-update-dependencies-v0.5.x''
   \<and> prefix
        [Run ''/work/napari_repo''
           [''git'', ''checkout'', ''-B'', ''auto-update-dependencies-v0.5.x'']]
        (trace (snd (create_pr_with_push (demo [] [] [] []) ''v0.5.x'' None [] start)))
   \<and> prefix
        [Run ''/work/napari_repo'' [''git'', ''checkout'', ''-B'', ''auto-update-dependencies'']]
        (trace (snd (create_pr_with_push (demo [] [] [] []) ''main'' None [] start)))"
  using working_branch_name
      [where X = "demo [] [] [] []" and s = start and b = "''v0.5.x''" and tok = None
         and ?repo0.0 = "[]"]
    working_branch_name
      [where X = "demo [] [] [] []" and s = start and b = "''main''" and tok = None
         and ?repo0.0 = "[]"]
  by (simp add: demo_def start_def)

text \<open>
  Claim C3. For every branch name, when the query for the directly changed
  dependencies (\<^verbatim>\<open>all_packages=False\<close>) returns the empty sequence, \<open>commit_message\<close>
  returns exactly \<^verbatim>\<open>Update indirect dependencies\<close>, and the process state is as before:
  it does return when the repository directory can be entered, and it returns nothing
  else in any case.
\<close>
theorem commit_message_indirect:
  assumes "get_changed_dependencies X False branch_name ''3.11'' (REPO_DIR X) = []"
  shows "(dirs X (cwd s) \<and> dirs X (REPO_DIR X) \<longrightarrow>
            commit_message X branch_name s = (Inr ''Update indirect dependencies'', s))
       \<and> (\<forall>message s'. commit_message X branch_name s = (Inr message, s') \<longrightarrow>
            message = ''Update indirect dependencies'' \<and> s' = s)"
  using assms by (simp add: commit_message_cases title_text_def)

text \<open>A world with no direct change and one indirect change.\<close>
theorem commit_message_indirect_witness:
  "get_changed_dependencies (demo [] [] [''tqdm''] []) False ''main'' ''3.11''
     (REPO_DIR (demo [] [] [''tqdm''] [])) = []
   \<and> commit_message (demo [] [] [''tqdm''] []) ''main'' start =
       (Inr ''Update indirect dependencies'', start)"
  using commit_message_indirect
      [where X = "demo [] [] [''tqdm''] []" and s = start and branch_name = "''main''",
       THEN conjunct1]
  by (simp add: demo_def start_def)

text \<open>
  Claim C4. When the query for the directly changed dependencies returns a non-empty
  sequence \<open>p # ps\<close>, \<open>commit_message\<close> returns \<^verbatim>\<open>Update \<close> followed by the names, each
  between backticks, joined by a comma and a space, in the order of the sequence: the
  first name, then each further name behind its separator. It does return when the
  repository directory can be entered, and it returns nothing else in any case.
\<close>
theorem commit_message_direct:
  assumes "get_changed_dependencies X False branch_name ''3.11'' (REPO_DIR X) = p # ps"
  shows "(dirs X (cwd s) \<and> dirs X (REPO_DIR X) \<longrightarrow>
            commit_message X branch_name s =
              (Inr (''Update '' @ join '', '' (map (\<lambda>x. ''`'' @ x @ ''`'') (p # ps))), s))
       \<and> (\<forall>message s'. commit_message X branch_name s = (Inr message, s') \<longrightarrow>
            message = ''Update '' @ join '', '' (map (\<lambda>x. ''`'' @ x @ ''`'') (p # ps)) \<and> s' = s)
       \<and> join '', '' (map (\<lambda>x. ''`'' @ x @ ''`'') (p # ps)) =
           ''`'' @ p @ ''`'' @ concat (map (\<lambda>x. '', `'' @ x @ ''`'') ps)"
proof -
  have "title_text X branch_name =
      ''Update '' @ join '', '' (map (\<lambda>x. ''`'' @ x @ ''`'') (p # ps))"
    unfolding title_text_def assms backtick_eq by simp
  moreover have "join '', '' (map (\<lambda>x. ''`'' @ x @ ''`'') (p # ps)) =
      ''`'' @ p @ ''`'' @ concat (map (\<lambda>x. '', `'' @ x @ ''`'') ps)"
    by (simp add: join_concat comp_def)
  ultimately show ?thesis
    by (simp only: commit_message_cases) simp
qed

text \<open>Three names, in their order.\<close>
theorem commit_message_direct_witness:
  "commit_message (demo [] [''numpy'', ''scipy'', ''attrs''] [] []) ''main'' start =
     (Inr ''Update `numpy`, `scipy`, `attrs`'', start)"
  using commit_message_direct
    [where X = "demo [] [''numpy'', ''scipy'', ''attrs''] [] []" and s = start
       and branch_name = "''main''" and p = "''numpy''" and ps = "[''scipy'', ''attrs'']",
       THEN conjunct1]
  by (simp add: demo_def start_def)

text \<open>
  Claim C5. For every branch name and every result of the query for all changed
  dependencies (\<^verbatim>\<open>all_packages=True\<close>), \<open>long_description\<close> returns
  \<^verbatim>\<open>Updated packages: \<close> followed by the names between backticks, joined by a comma
  and a space. It does return when the repository directory can be entered, and it
  returns nothing else in any case.
\<close>
theorem long_description_text:
  "(dirs X (cwd s) \<and> dirs X (REPO_DIR X) \<longrightarrow>
      long_description X branch_name s =
        (Inr (''Updated packages: '' @
              join '', '' (map (\<lambda>x. ''`'' @ x @ ''`'')
                (get_changed_dependencies X True branch_name ''3.11'' (REPO_DIR X)))), s))
   \<and> (\<forall>description s'. long_description X branch_name s = (Inr description, s') \<longrightarrow>
        description =
          ''Updated packages: '' @
          join '', '' (map (\<lambda>x. ''`'' @ x @ ''`'')
            (get_changed_dependencies X True branch_name ''3.11'' (REPO_DIR X)))
        \<and> s' = s)"
proof -
  have "body_text X branch_name =
      ''Updated packages: '' @
      join '', '' (map (\<lambda>x. ''`'' @ x @ ''`'')
        (get_changed_dependencies X True branch_name ''3.11'' (REPO_DIR X)))"
    unfolding body_text_def backtick_eq by simp
  then show ?thesis
    by (simp only: long_description_cases) simp
qed

text \<open>Three names; and no name at all, where only the prefix is left.\<close>
theorem long_description_text_witness:
  "long_description (demo [] [''numpy''] [''numpy'', ''tqdm'', ''zipp''] []) ''main'' start =
     (Inr ''Updated packages: `numpy`, `tqdm`, `zipp`'', start)
   \<and> long_description (demo [] [] [] []) ''main'' start = (Inr ''Updated packages: '', start)"
  using long_description_text
      [where X = "demo [] [''numpy''] [''numpy'', ''tqdm'', ''zipp''] []" and s = start
         and branch_name = "''main''", THEN conjunct1]
    long_description_text
      [where X = "demo [] [] [] []" and s = start and branch_name = "''main''",
         THEN conjunct1]
  by (simp add: demo_def start_def)

text \<open>
  Claim C6. With the event kind \<^verbatim>\<open>pull_request\<close>, the branch \<^verbatim>\<open>feature-x\<close>, the PR
  number \<^verbatim>\<open>42\<close> and the repository name \<open>repo\<close> in the environment, and with every
  child process exiting with 0, the run commits on the branch
  \<^verbatim>\<open>auto-update-dependencies/{repo}/feature-x\<close>, force-pushes that branch to the remote
  \<^verbatim>\<open>napari-bot\<close>, and then posts a comment to issue 42 whose body contains the compare
  link that names that branch. Nothing else is run or requested.
\<close>
theorem pull_request_scenario:
  fixes X :: extern and s :: state and repo :: string
  defines "nb \<equiv> ''auto-update-dependencies/'' @ repo @ ''/feature-x''"
  assumes "environ X ''GITHUB_EVENT_NAME'' = Some ''pull_request''"
    and "environ X ''BRANCH'' = Some ''feature-x''"
    and "environ X ''PR_NUMBER'' = Some ''42''"
    and "environ X ''FULL_NAME'' = Some repo"
    and "dirs X (cwd s)" and "dirs X (REPO_DIR X)"
    and "\<And>d argv. returncode X d argv = 0"
  shows "\<exists>message.
       snd (main X s) =
         s\<lparr>trace := trace s @
           [Run (cwd s) [''git'', ''config'', ''--global'', ''user.name'', ''napari-bot''],
            Run (cwd s) [''git'', ''config'', ''--global'', ''user.email'',
                         ''napari-bot@users.noreply.github.com''],
            Run (REPO_DIR X) [''git'', ''checkout'', ''-B'', nb],
            Run (REPO_DIR X) [''git'', ''add'', ''-u''],
            Run (REPO_DIR X) [''git'', ''commit'', ''-m'', title_text X ''feature-x''],
            Run (REPO_DIR X) [''git'', ''push'', ''--force'', ''--set-upstream'', ''napari-bot'', nb],
            Post (BASE_URL @ ''/repos/''
                  @ environ_get (environ X) ''GITHUB_REPOSITORY'' ''napari/napari''
                  @ ''/issues/42/comments'')
              [(''Authorization'', ''token '' @ fmt (environ X ''GITHUB_TOKEN''))]
              [(''body'', PStr message)]]\<rparr>
     \<and> sublist (''https://github.com/'' @ repo @ ''/compare/feature-x...napari-bot:'' @ nb @ ''.'')
                 message"
proof -
  let ?c = "comment_content (body_text X ''origin/feature-x'') repo ''feature-x'' nb"
  let ?s1 = "s\<lparr>trace := trace s @
           [Run (cwd s) [''git'', ''config'', ''--global'', ''user.name'', ''napari-bot''],
            Run (cwd s) [''git'', ''config'', ''--global'', ''user.email'',
                         ''napari-bot@users.noreply.github.com'']]\<rparr>"
  have m: "main X s = update_pr X ''feature-x'' (environ X ''GHA_TOKEN'')
                        (environ X ''GHA_TOKEN_2'') ?s1"
    using assms(2,3,8) by (simp add: main_def Let_def setup_git_author_seq)
  have u: "update_pr X ''feature-x'' (environ X ''GHA_TOKEN'') (environ X ''GHA_TOKEN_2'') ?s1 =
      add_comment_to_pr X 42 ?c (environ X ''GHA_TOKEN'')
        (environ_get (environ X) ''GITHUB_REPOSITORY'' ''napari/napari'')
        (?s1\<lparr>trace := trace ?s1 @
           [Run (REPO_DIR X) [''git'', ''checkout'', ''-B'', nb],
            Run (REPO_DIR X) [''git'', ''add'', ''-u''],
            Run (REPO_DIR X) [''git'', ''commit'', ''-m'', title_text X ''feature-x''],
            Run (REPO_DIR X) [''git'', ''push'', ''--force'', ''--set-upstream'', ''napari-bot'',
                              nb]]\<rparr>)"
    using assms(4-8)
      update_pr_eq [where X = X and s = ?s1 and p = "''42''" and n = 42 and nb = nb
        and b = "''feature-x''" and tok = "environ X ''GHA_TOKEN''"
        and ?tok2.0 = "environ X ''GHA_TOKEN_2''"]
    by (simp add: py_int_42 fmt_def nb_def)
  have "sublist (''https://github.com/'' @ repo @ ''/compare/feature-x...napari-bot:'' @ nb @ ''.'') ?c"
    using compare_link_in_comment [of repo "''feature-x''" nb "body_text X ''origin/feature-x''"]
    by simp
  moreover have "snd (main X s) =
         s\<lparr>trace := trace s @
           [Run (cwd s) [''git'', ''config'', ''--global'', ''user.name'', ''napari-bot''],
            Run (cwd s) [''git'', ''config'', ''--global'', ''user.email'',
                         ''napari-bot@users.noreply.github.com''],
            Run (REPO_DIR X) [''git'', ''checkout'', ''-B'', nb],
            Run (REPO_DIR X) [''git'', ''add'', ''-u''],
            Run (REPO_DIR X) [''git'', ''commit'', ''-m'', title_text X ''feature-x''],
            Run (REPO_DIR X) [''git'', ''push'', ''--force'', ''--set-upstream'', ''napari-bot'', nb],
            Post (BASE_URL @ ''/repos/''
                  @ environ_get (environ X) ''GITHUB_REPOSITORY'' ''napari/napari''
                  @ ''/issues/42/comments'')
              [(''Authorization'', ''token '' @ fmt (environ X ''GITHUB_TOKEN''))]
              [(''body'', PStr ?c)]]\<rparr>"
    unfolding m u add_comment_to_pr_snd by (simp add: str_int_def str_nat_42)
  ultimately show ?thesis by blast
qed

text \<open>The scenario on a concrete world, for the contributor repository \<^verbatim>\<open>alice/napari\<close>.\<close>
theorem pull_request_scenario_witness:
  "\<exists>message.
     trace (snd (main (demo [(''GITHUB_EVENT_NAME'', ''pull_request''), (''BRANCH'', ''feature-x''),
                         (''PR_NUMBER'', ''42''), (''FULL_NAME'', ''alice/napari''),
                         (''GITHUB_REPOSITORY'', ''napari/napari''), (''GITHUB_TOKEN'', ''s3cret'')]
                   [''numpy''] [''numpy'', ''tqdm''] []) start)) =
       [Run ''/work'' [''git'', ''config'', ''--global'', ''user.name'', ''napari-bot''],
        Run ''/work'' [''git'', ''config'', ''--global'', ''user.email'',
                       ''napari-bot@users.noreply.github.com''],
        Run ''/work/napari_repo''
          [''git'', ''checkout'', ''-B'', ''auto-update-dependencies/alice/napari/feature-x''],
        Run ''/work/napari_repo'' [''git'', ''add'', ''-u''],
        Run ''/work/napari_repo'' [''git'', ''commit'', ''-m'', ''Update `numpy`''],
        Run ''/work/napari_repo''
          [''git'', ''push'', ''--force'', ''--set-upstream'', ''napari-bot'',
           ''auto-update-dependencies/alice/napari/feature-x''],
        Post ''https://api.github.com/repos/napari/napari/issues/42/comments''
          [(''Authorization'', ''token s3cret'')]
          [(''body'', PStr message)]]
     \<and> sublist
          ''https://github.com/alice/napari/compare/feature-x...napari-bot:auto-update-dependencies/alice/napari/feature-x.''
          message"
  using pull_request_scenario
    [of "demo [(''GITHUB_EVENT_NAME'', ''pull_request''), (''BRANCH'', ''feature-x''),
               (''PR_NUMBER'', ''42''), (''FULL_NAME'', ''alice/napari''),
               (''GITHUB_REPOSITORY'', ''napari/napari''), (''GITHUB_TOKEN'', ''s3cret'')]
           [''numpy''] [''numpy'', ''tqdm''] []" "''alice/napari''" start]
  by (simp add: demo_def start_def environ_get_def title_text_def backtick_def fmt_def
      BASE_URL_def)
    (elim exE conjE, intro exI conjI, simp_all)

text \<open>
  Claim C7. For every event kind outside \<^verbatim>\<open>schedule\<close>, \<^verbatim>\<open>workflow_dispatch\<close>,
  \<^verbatim>\<open>issue_comment\<close> and \<^verbatim>\<open>pull_request\<close>, \<open>main\<close> ends with an exception. All it has
  done by then is to run, in its starting directory, the two commands that set the git
  author (or the first of them, or none): no checkout, commit, push or HTTP request of
  either flow. When the branch variable is set and both commands succeed, the exception
  is the \<^verbatim>\<open>ValueError\<close> for the unknown event name.
\<close>
theorem unknown_event_is_fatal:
  assumes "environ X ''GITHUB_EVENT_NAME'' = Some ev"
    and "ev \<notin> {''schedule'', ''workflow_dispatch'', ''issue_comment'', ''pull_request''}"
  shows "(\<exists>e. fst (main X s) = Inl e)
       \<and> cwd (snd (main X s)) = cwd s
       \<and> (\<exists>k. trace (snd (main X s)) =
              trace s @
              take k [Run (cwd s) [''git'', ''config'', ''--global'', ''user.name'', ''napari-bot''],
                      Run (cwd s) [''git'', ''config'', ''--global'', ''user.email'',
                                   ''napari-bot@users.noreply.github.com'']])
       \<and> (environ X ''BRANCH'' \<noteq> None
            \<and> returncode X (cwd s)
                 [''git'', ''config'', ''--global'', ''user.name'', ''napari-bot''] = 0
            \<and> returncode X (cwd s)
                 [''git'', ''config'', ''--global'', ''user.email'',
                  ''napari-bot@users.noreply.github.com''] = 0
            \<longrightarrow> fst (main X s) = Inl (ValueError (''Unknown event name: '' @ ev)))"
proof (intro conjI)
  note m = main_unknown [OF assms, of s]
  show "\<exists>e. fst (main X s) = Inl e"
    unfolding m by (simp split: option.splits)
  show "cwd (snd (main X s)) = cwd s"
    unfolding m by (simp split: option.splits)
  show "\<exists>k. trace (snd (main X s)) =
      trace s @
      take k [Run (cwd s) [''git'', ''config'', ''--global'', ''user.name'', ''napari-bot''],
              Run (cwd s) [''git'', ''config'', ''--global'', ''user.email'',
                           ''napari-bot@users.noreply.github.com'']]"
  proof (cases "environ X ''BRANCH''")
    case None
    then have "trace (snd (main X s)) = trace s" unfolding m by simp
    then show ?thesis by (intro exI [of _ 0]) simp
  next
    case (Some branch_name)
    show ?thesis
    proof (cases "returncode X (cwd s)
                    [''git'', ''config'', ''--global'', ''user.name'', ''napari-bot''] = 0")
      case False
      with Some show ?thesis unfolding m by (intro exI [of _ 1]) simp
    next
      case True
      with Some show ?thesis unfolding m by (intro exI [of _ 2]) simp
    qed
  qed
  show "environ X ''BRANCH'' \<noteq> None
      \<and> returncode X (cwd s) [''git'', ''config'', ''--global'', ''user.name'', ''napari-bot''] = 0
      \<and> returncode X (cwd s)
           [''git'', ''config'', ''--global'', ''user.email'',
            ''napari-bot@users.noreply.github.com''] = 0
      \<longrightarrow> fst (main X s) = Inl (ValueError (''Unknown event name: '' @ ev))"
    unfolding m by (auto split: option.splits)
qed

text \<open>The event kind \<^verbatim>\<open>push\<close>.\<close>
theorem unknown_event_is_fatal_witness:
  "fst (main (demo [(''GITHUB_EVENT_NAME'', ''push''), (''BRANCH'', ''main'')] [] [] []) start) =
     Inl (ValueError ''Unknown event name: push'')
   \<and> (\<exists>k. trace (snd (main (demo [(''GITHUB_EVENT_NAME'', ''push''), (''BRANCH'', ''main'')]
                                [] [] []) start)) =
          take k [Run ''/work'' [''git'', ''config'', ''--global'', ''user.name'', ''napari-bot''],
                  Run ''/work'' [''git'', ''config'', ''--global'', ''user.email'',
                                 ''napari-bot@users.noreply.github.com'']])"
  using unknown_event_is_fatal
    [of "demo [(''GITHUB_EVENT_NAME'', ''push''), (''BRANCH'', ''main'')] [] [] []" "''push''"
        start]
  by (simp add: demo_def start_def)

text \<open>
  Claim C8. After \<open>cd\<close> the working directory is what it was before, for every body:
  one that returns and one that raises, and even one that changes the directory itself.
  When both directories can be entered, the outcome of \<open>cd\<close> (value or exception) is
  that of the body, run inside \<open>path\<close>. Hence every function of the script that works
  inside \<open>cd\<close> keeps the working directory, and so do the two flows and \<open>main\<close>.
\<close>
theorem cd_restores_working_directory:
  "cwd (snd (cd X path body s)) = cwd s
   \<and> (dirs X (cwd s) \<and> dirs X path \<longrightarrow>
        fst (cd X path body s) = fst (body (s\<lparr>cwd := path\<rparr>)))
   \<and> keeps_cwd (create_commit X message branch_name)
   \<and> keeps_cwd (push X branch_name update)
   \<and> keeps_cwd (commit_message X branch_name)
   \<and> keeps_cwd (long_description X branch_name)
   \<and> keeps_cwd (create_pr_with_push X branch_name tok repo)
   \<and> keeps_cwd (update_pr X branch_name tok tok2)
   \<and> keeps_cwd (main X)"
proof -
  have "fst (cd X path body s) = fst (body (s\<lparr>cwd := path\<rparr>))"
    if "dirs X (cwd s)" and "dirs X path"
    using that by (simp add: cd_enter split: prod.splits)
  then show ?thesis
    by (simp add: cd_cwd keeps_cwd_create_commit keeps_cwd_push keeps_cwd_commit_message
        keeps_cwd_long_description keeps_cwd_create_pr_with_push keeps_cwd_update_pr
        keeps_cwd_main)
qed

text \<open>A body that raises and a body that returns.\<close>
theorem cd_restores_working_directory_witness:
  "fst (cd (demo [] [] [] []) ''/work/napari_repo'' (raise (CalledProcessError [''git''])) start) =
     (Inl (CalledProcessError [''git'']) :: error + unit)
   \<and> cwd (snd (cd (demo [] [] [] []) ''/work/napari_repo''
                  (raise (CalledProcessError [''git'']) :: unit action) start)) = ''/work''
   \<and> fst (cd (demo [] [] [] []) ''/work/napari_repo''
             (subprocess_run (demo [] [] [] []) [''git'', ''add'', ''-u'']) start) = Inr ()
   \<and> cwd (snd (cd (demo [] [] [] []) ''/work/napari_repo''
                  (subprocess_run (demo [] [] [] []) [''git'', ''add'', ''-u'']) start)) = ''/work''"
  using cd_restores_working_directory
      [of "demo [] [] [] []" "''/work/napari_repo''"
          "raise (CalledProcessError [''git'']) :: unit action" start]
    cd_restores_working_directory
      [of "demo [] [] [] []" "''/work/napari_repo''"
          "subprocess_run (demo [] [] [] []) [''git'', ''add'', ''-u'']" start]
  by (simp add: demo_def start_def raise_def subprocess_run_def)

text \<open>
  Claim C9. \<open>add_comment_to_pr\<close> does not depend on its parameter \<open>access_token\<close>: for
  two values of it, and the same environment, it is the same action. The one request it
  sends has the \<^verbatim>\<open>Authorization\<close> header built from the environment variable
  \<^verbatim>\<open>GITHUB_TOKEN\<close>.
\<close>
theorem add_comment_ignores_access_token:
  "add_comment_to_pr X n message access_token repo =
     add_comment_to_pr X n message access_token' repo
   \<and> snd (add_comment_to_pr X n message access_token repo s) =
       s\<lparr>trace := trace s @
         [Post (BASE_URL @ ''/repos/'' @ repo @ ''/issues/'' @ str_int n @ ''/comments'')
            [(''Authorization'', ''token '' @ fmt (environ X ''GITHUB_TOKEN''))]
            [(''body'', PStr message)]]\<rparr>"
  by (simp add: add_comment_to_pr_snd) (simp add: add_comment_to_pr_def)

text \<open>
  Claim C10. For every branch name and repository value, the comment that \<open>update_pr\<close>
  posts contains the text \<^verbatim>\<open>{os.environ.get('GITHUB_RUN_ID')}\<close> as it stands in the
  source: the piece is a plain string. Accordingly \<open>update_pr\<close> is the same action
  whatever the environment variable \<^verbatim>\<open>GITHUB_RUN_ID\<close> holds.
\<close>
theorem run_id_is_not_interpolated:
  assumes "dirs X (cwd s)" and "dirs X (REPO_DIR X)"
    and "\<And>argv. returncode X (REPO_DIR X) argv = 0"
    and "environ X ''PR_NUMBER'' = Some p" and "py_int p = Inr n"
  shows "(\<exists>url headers message.
            last (trace (snd (update_pr X b tok tok2 s))) =
              Post url headers [(''body'', PStr message)]
          \<and> sublist ''{os.environ.get('GITHUB_RUN_ID')}'' message)
       \<and> update_pr (X\<lparr>environ := (environ X)(''GITHUB_RUN_ID'' := v)\<rparr>) b tok tok2 =
           update_pr X b tok tok2"
proof
  show "\<exists>url headers message.
            last (trace (snd (update_pr X b tok tok2 s))) =
              Post url headers [(''body'', PStr message)]
          \<and> sublist ''{os.environ.get('GITHUB_RUN_ID')}'' message"
    unfolding update_pr_eq [OF assms refl] add_comment_to_pr_snd
    by (simp add: run_id_in_comment)
  show "update_pr (X\<lparr>environ := (environ X)(''GITHUB_RUN_ID'' := v)\<rparr>) b tok tok2 =
           update_pr X b tok tok2"
    by (rule update_pr_run_id)
qed

text \<open>A run with a run identifier in the environment.\<close>
theorem run_id_is_not_interpolated_witness:
  "(\<exists>url headers message.
      last (trace (snd (update_pr (demo [(''PR_NUMBER'', ''42'')] [] [] []) ''feature-x''
                          None None start))) =
        Post url headers [(''body'', PStr message)]
      \<and> sublist ''{os.environ.get('GITHUB_RUN_ID')}'' message)
   \<and> update_pr
       (demo [(''PR_NUMBER'', ''42'')] [] [] []
          \<lparr>environ := (environ (demo [(''PR_NUMBER'', ''42'')] [] [] []))
                        (''GITHUB_RUN_ID'' \<mapsto> ''8123456789'')\<rparr>)
       ''feature-x'' None None =
     update_pr (demo [(''PR_NUMBER'', ''42'')] [] [] []) ''feature-x'' None None"
  using run_id_is_not_interpolated
    [of "demo [(''PR_NUMBER'', ''42'')] [] [] []" start "''42''" 42 "''feature-x''" None None
        "Some ''8123456789''"]
  by (simp add: py_int_42) (simp add: demo_def start_def)

end
